theory Spec2Isabelle
  imports Main
begin

section \<open>Cluster discovery of the bucky client (bucky/cluster.go)\<close>

text \<open>
  The development embeds \<^verbatim>\<open>GetClusterConfig\<close> and \<^verbatim>\<open>isHealthy\<close> of
  \<^verbatim>\<open>bucky/cluster.go\<close>. Go strings are byte sequences and are modelled as
  \<^typ>\<open>string\<close>; a pointer that may be nil is an \<^typ>\<open>'a option\<close>; a run-time
  panic and an \<^verbatim>\<open>error\<close> return are values of the result.
\<close>

subsection \<open>Data\<close>

text \<open>
  Modelled from the spec: the declaration of \<^verbatim>\<open>JSONRingType\<close> lives in the
  buckytools package, outside \<^verbatim>\<open>cluster.go\<close>. The record has the three fields the
  code reads (\<^verbatim>\<open>Algo\<close>, \<^verbatim>\<open>Replicas\<close>, \<^verbatim>\<open>Nodes\<close>), which are the attributes
  of the spec's ring snapshot.
\<close>

record JSONRingType =
  Algo :: string
  Replicas :: int
  Nodes :: "string list"

text \<open>
  Modelled from the spec: the \<^verbatim>\<open>hashing\<close> package is outside \<^verbatim>\<open>cluster.go\<close>.
  A node is the pair of hostname and instance; a ring is kept as its algorithm
  (with the replica parameter of the jump ring) and the nodes added to it, in order.
\<close>

datatype Node = Node (Server: string) (Instance: string)

datatype HashRing = CarbonHashRing "Node list" | JumpHashRing int "Node list"

definition NewCarbonHashRing :: HashRing where
  "NewCarbonHashRing = CarbonHashRing []"

definition NewJumpHashRing :: "int \<Rightarrow> HashRing" where
  "NewJumpHashRing replicas = JumpHashRing replicas []"

fun AddNode :: "HashRing \<Rightarrow> Node \<Rightarrow> HashRing" where
  "AddNode (CarbonHashRing ns) n = CarbonHashRing (ns @ [n])"
| "AddNode (JumpHashRing r ns) n = JumpHashRing r (ns @ [n])"

text \<open>\<^verbatim>\<open>ClusterConfig\<close>; the interface value \<^verbatim>\<open>Hash\<close> is nil until a ring is assigned.\<close>

record ClusterConfig =
  Port :: string
  Servers :: "string list"
  Hash :: "HashRing option"
  Healthy :: bool

text \<open>The package-level variables the function reads and writes: the cache
  \<^verbatim>\<open>Cluster\<close> (a pointer, nil at start) and the address \<^verbatim>\<open>HostPort\<close>.\<close>

record globals =
  Cluster :: "ClusterConfig option"
  HostPort :: string

datatype panic = NilDereference | IndexOutOfRange

text \<open>The errors \<^verbatim>\<open>GetClusterConfig\<close> can hand back: the error of the seed probe, the
  \<^verbatim>\<open>net.AddrError\<close> of \<^verbatim>\<open>net.SplitHostPort\<close> (reason, address), the message of
  \<^verbatim>\<open>fmt.Errorf\<close>; a panic leaves the function without a return value.\<close>

datatype error = ProbeFailed string | AddrError string string | Errorf string | Panic panic

subsection \<open>The consistency check\<close>

text \<open>The loop \<^verbatim>\<open>for j, _ := range v.Nodes\<close> of \<^verbatim>\<open>isHealthy\<close>: both lists are read
  at the same index \<^verbatim>\<open>j\<close>; reading \<^verbatim>\<open>master.Nodes[j]\<close> beyond its end panics.\<close>

fun sameOrder :: "string list \<Rightarrow> string list \<Rightarrow> panic + bool" where
  "sameOrder [] ms = Inr True"
| "sameOrder (x # xs) [] = Inl IndexOutOfRange"
| "sameOrder (x # xs) (m # ms) = (if x \<noteq> m then Inr False else sameOrder xs ms)"

text \<open>The loop \<^verbatim>\<open>for _, v := range ring\<close>: reading \<^verbatim>\<open>v.Algo\<close> of a nil \<^verbatim>\<open>v\<close>
  panics.\<close>

fun compareRing :: "JSONRingType \<Rightarrow> JSONRingType option list \<Rightarrow> panic + bool" where
  "compareRing master [] = Inr True"
| "compareRing master (None # vs) = Inl NilDereference"
| "compareRing master (Some v # vs) =
     (if Algo master \<noteq> Algo v then Inr False
      else if length (Nodes v) \<noteq> length (Nodes master) then Inr False
      else (case sameOrder (Nodes v) (Nodes master) of
              Inl p \<Rightarrow> Inl p
            | Inr b \<Rightarrow> if b then compareRing master vs else Inr False))"

definition isHealthy :: "JSONRingType \<Rightarrow> JSONRingType option list \<Rightarrow> panic + bool" where
  "isHealthy master ring =
     (if length (Nodes master) \<noteq> length ring then Inr False
      else compareRing master ring)"

subsection \<open>Node tokens\<close>

text \<open>\<^verbatim>\<open>strings.Split(s, sep)\<close> for a separator of one byte: the pieces of \<^verbatim>\<open>s\<close>
  between the separators, at least one piece.\<close>

fun Split :: "string \<Rightarrow> char \<Rightarrow> string list" where
  "Split [] sep = [[]]"
| "Split (c # cs) sep =
     (if c = sep then [] # Split cs sep
      else (case Split cs sep of [] \<Rightarrow> [[c]] | f # fs \<Rightarrow> (c # f) # fs))"

text \<open>The body of the loop over \<^verbatim>\<open>master.Nodes\<close>: the fields of the token, padded to
  two, and the node built from the first two.\<close>

definition nodeFields :: "string \<Rightarrow> string list" where
  "nodeFields v =
     (let fields = Split v CHR '':'' in
      if length fields < 2 then fields @ [''''] else fields)"

definition parseNode :: "string \<Rightarrow> Node" where
  "parseNode v = Node (nodeFields v ! 0) (nodeFields v ! 1)"

subsection \<open>Addresses\<close>

text \<open>\<^verbatim>\<open>net.SplitHostPort\<close> of the Go standard library, which \<^verbatim>\<open>cluster.go\<close> calls:
  the port starts after the last colon; a host in brackets ends at the first
  \<^verbatim>\<open>]\<close>, which must stand just before that colon; any other host has no colon;
  no bracket may stand elsewhere.\<close>

fun IndexByte :: "string \<Rightarrow> char \<Rightarrow> nat option" where
  "IndexByte [] c = None"
| "IndexByte (x # xs) c = (if x = c then Some 0 else map_option Suc (IndexByte xs c))"

definition LastIndexByte :: "string \<Rightarrow> char \<Rightarrow> nat option" where
  "LastIndexByte s c = map_option (\<lambda>k. length s - 1 - k) (IndexByte (rev s) c)"

definition missingPort :: string where
  "missingPort = ''missing port in address''"

definition tooManyColons :: string where
  "tooManyColons = ''too many colons in address''"

definition splitHost :: "string \<Rightarrow> nat \<Rightarrow> error + string \<times> nat \<times> nat" where
  "splitHost hostport i =
     (if hostport ! 0 = CHR ''['' then
        (case IndexByte hostport CHR '']'' of
           None \<Rightarrow> Inl (AddrError ''missing ']' in address'' hostport)
         | Some e \<Rightarrow>
             if e + 1 = length hostport then Inl (AddrError missingPort hostport)
             else if e + 1 = i then Inr (take (e - 1) (drop 1 hostport), 1, e + 1)
             else if hostport ! (e + 1) = CHR '':'' then Inl (AddrError tooManyColons hostport)
             else Inl (AddrError missingPort hostport))
      else
        (let host = take i hostport in
         if IndexByte host CHR '':'' \<noteq> None then Inl (AddrError tooManyColons hostport)
         else Inr (host, 0, 0)))"

definition SplitHostPort :: "string \<Rightarrow> error + string \<times> string" where
  "SplitHostPort hostport =
     (case LastIndexByte hostport CHR '':'' of
        None \<Rightarrow> Inl (AddrError missingPort hostport)
      | Some i \<Rightarrow>
          (case splitHost hostport i of
             Inl err \<Rightarrow> Inl err
           | Inr (host, j, k) \<Rightarrow>
               if IndexByte (drop j hostport) CHR ''['' \<noteq> None
               then Inl (AddrError ''unexpected '[' in address'' hostport)
               else if IndexByte (drop k hostport) CHR '']'' \<noteq> None
               then Inl (AddrError ''unexpected ']' in address'' hostport)
               else Inr (host, drop (i + 1) hostport)))"

subsection \<open>Discovery\<close>

text \<open>The \<^verbatim>\<open>switch master.Algo\<close>: the ring of a known algorithm, nothing in the
  \<^verbatim>\<open>default\<close> branch.\<close>

definition ringFor :: "JSONRingType \<Rightarrow> HashRing option" where
  "ringFor master =
     (if Algo master = ''carbon'' then Some NewCarbonHashRing
      else if Algo master = ''jump_fnv1a'' then Some (NewJumpHashRing (Replicas master))
      else None)"

text \<open>The loop over \<^verbatim>\<open>master.Nodes\<close>: each token appends its first field to
  \<^verbatim>\<open>Cluster.Servers\<close> and adds its node to \<^verbatim>\<open>Cluster.Hash\<close>.\<close>

fun addNodes :: "string list \<Rightarrow> string list \<times> HashRing \<Rightarrow> string list \<times> HashRing" where
  "addNodes [] (servers, ring) = (servers, ring)"
| "addNodes (v # vs) (servers, ring) =
     addNodes vs (servers @ [Split v CHR '':'' ! 0], AddNode ring (parseNode v))"

text \<open>
  Modelled from the spec: \<^verbatim>\<open>GetSingleHashRing\<close> is defined outside \<^verbatim>\<open>cluster.go\<close>.
  It is a parameter of the model, the spec's prober: given \<^verbatim>\<open>host:port\<close> it returns a
  snapshot or fails with an error, and a failed probe returns the nil pointer. Its
  answer for an address is the same throughout one call of \<^verbatim>\<open>GetClusterConfig\<close>.

  The loop over \<^verbatim>\<open>Cluster.Servers\<close>: every server but the one named \<^verbatim>\<open>server\<close> is
  probed at \<^verbatim>\<open>srv:port\<close>, and the probe's pointer is appended to \<^verbatim>\<open>members\<close>
  whether or not the probe failed. The result pairs each probed address with its member.
\<close>

type_synonym prober = "string \<Rightarrow> string + JSONRingType"

fun queryMembers ::
  "prober \<Rightarrow> string \<Rightarrow> string \<Rightarrow> string list \<Rightarrow> (string \<times> JSONRingType option) list" where
  "queryMembers GetSingleHashRing server port [] = []"
| "queryMembers GetSingleHashRing server port (srv # rest) =
     (if srv = server then queryMembers GetSingleHashRing server port rest
      else (let host = srv @ '':'' @ port in
            (host, (case GetSingleHashRing host of Inl err \<Rightarrow> None | Inr member \<Rightarrow> Some member))
              # queryMembers GetSingleHashRing server port rest))"

text \<open>
  \<^verbatim>\<open>GetClusterConfig\<close>. The result is the returned pair \<^verbatim>\<open>(*ClusterConfig, error)\<close>
  as a sum (or the panic that ended the call), the addresses handed to
  \<^verbatim>\<open>GetSingleHashRing\<close> during the call, in order, and the package-level variables
  after the call.
\<close>

definition GetClusterConfig ::
  "prober \<Rightarrow> string \<Rightarrow> globals \<Rightarrow> (error + ClusterConfig) \<times> string list \<times> globals" where
  "GetClusterConfig GetSingleHashRing hostport g =
     (case Cluster g of
        Some c \<Rightarrow> (Inr c, [], g)
      | None \<Rightarrow>
          (case GetSingleHashRing hostport of
             Inl err \<Rightarrow> (Inl (ProbeFailed err), [hostport], g)
           | Inr master \<Rightarrow>
               (case SplitHostPort (HostPort g) of
                  Inl err \<Rightarrow> (Inl err, [hostport], g)
                | Inr (server, port) \<Rightarrow>
                    (let c0 = \<lparr>Port = port, Servers = [], Hash = None, Healthy = False\<rparr> in
                     case ringFor master of
                       None \<Rightarrow>
                         (Inl (Errorf (''Unknown consistent hash algorithm: '' @ Algo master)),
                          [hostport], g\<lparr>Cluster := Some c0\<rparr>)
                     | Some ring0 \<Rightarrow>
                         (let (servers, ring) = addNodes (Nodes master) ([], ring0);
                              c1 = c0\<lparr>Servers := servers, Hash := Some ring\<rparr>;
                              members = queryMembers GetSingleHashRing server (Port c1) (Servers c1);
                              probes = hostport # map fst members
                          in case isHealthy master (map snd members) of
                               Inl p \<Rightarrow> (Inl (Panic p), probes, g\<lparr>Cluster := Some c1\<rparr>)
                             | Inr b \<Rightarrow>
                                 (let c2 = c1\<lparr>Healthy := b\<rparr>
                                  in (Inr c2, probes, g\<lparr>Cluster := Some c2\<rparr>)))))))"

subsection \<open>Evaluation\<close>

lemmas run_defs = GetClusterConfig_def SplitHostPort_def splitHost_def LastIndexByte_def
  missingPort_def tooManyColons_def ringFor_def NewCarbonHashRing_def NewJumpHashRing_def
  parseNode_def nodeFields_def isHealthy_def Let_def

subsection \<open>Facts about node tokens\<close>

lemma takeWhile_no_sep: "sep \<notin> set t \<Longrightarrow> takeWhile (\<lambda>c. c \<noteq> sep) t = t"
  by (induction t) auto

lemma dropWhile_no_sep: "sep \<notin> set t \<Longrightarrow> dropWhile (\<lambda>c. c \<noteq> sep) t = []"
  by (induction t) auto

lemma takeWhile_sep_append:
  "sep \<notin> set xs \<Longrightarrow> takeWhile (\<lambda>c. c \<noteq> sep) (xs @ sep # ys) = xs"
  by (induction xs) auto

lemma dropWhile_sep_append:
  "sep \<notin> set xs \<Longrightarrow> dropWhile (\<lambda>c. c \<noteq> sep) (xs @ sep # ys) = sep # ys"
  by (induction xs) auto

lemma Split_nonempty: "Split t sep \<noteq> []"
  by (induction t) (auto split: list.splits)

lemma Split_hd: "hd (Split t sep) = takeWhile (\<lambda>c. c \<noteq> sep) t"
  by (induction t) (auto split: list.splits simp: Split_nonempty)

lemma Split_tl:
  "tl (Split t sep) =
     (if sep \<in> set t then Split (drop 1 (dropWhile (\<lambda>c. c \<noteq> sep) t)) sep else [])"
  by (induction t) (auto split: list.splits simp: Split_nonempty)

lemma Split_unfold:
  "Split t sep = takeWhile (\<lambda>c. c \<noteq> sep) t #
     (if sep \<in> set t then Split (drop 1 (dropWhile (\<lambda>c. c \<noteq> sep) t)) sep else [])"
  using Split_nonempty [of t sep] Split_hd [of t sep] Split_tl [of t sep]
  by (cases "Split t sep") auto

text \<open>The node of a token: the text before the first colon, and the text between
  the first colon and the second (or the end).\<close>

lemma parseNode_general:
  "parseNode t = Node (takeWhile (\<lambda>c. c \<noteq> CHR '':'') t)
     (takeWhile (\<lambda>c. c \<noteq> CHR '':'') (drop 1 (dropWhile (\<lambda>c. c \<noteq> CHR '':'') t)))"
proof (cases "CHR '':'' \<in> set t")
  case False
  then have "Split t CHR '':'' = [t]"
    by (subst Split_unfold) auto
  with False show ?thesis
    by (simp add: parseNode_def nodeFields_def takeWhile_no_sep dropWhile_no_sep)
next
  case True
  let ?r = "drop 1 (dropWhile (\<lambda>c. c \<noteq> CHR '':'') t)"
  have "Split t CHR '':'' = takeWhile (\<lambda>c. c \<noteq> CHR '':'') t # Split ?r CHR '':''"
    using True by (subst Split_unfold) simp
  moreover obtain f fs where "Split ?r CHR '':'' = f # fs"
    using Split_nonempty [of ?r] by (cases "Split ?r CHR '':''") auto
  moreover from this have "f = takeWhile (\<lambda>c. c \<noteq> CHR '':'') ?r"
    using Split_hd [of ?r "CHR '':''"] by simp
  ultimately show ?thesis
    by (simp add: parseNode_def nodeFields_def Let_def)
qed

subsection \<open>Facts about the consistency check\<close>

lemma sameOrder_eq_length:
  "length xs = length ms \<Longrightarrow> sameOrder xs ms = Inr (xs = ms)"
  by (induction xs ms rule: sameOrder.induct) auto

lemma compareRing_Some:
  "compareRing master (Some v # vs) =
     (if Algo v = Algo master \<and> Nodes v = Nodes master then compareRing master vs
      else Inr False)"
  by (auto simp: sameOrder_eq_length)

text \<open>The loop answers true exactly when every peer is present and reports the
  reference's algorithm and node list.\<close>

lemma compareRing_true_iff:
  "compareRing master ring = Inr True \<longleftrightarrow>
     (\<forall>x\<in>set ring. \<exists>v. x = Some v \<and> Algo v = Algo master \<and> Nodes v = Nodes master)"
proof (induction ring)
  case Nil
  then show ?case by simp
next
  case (Cons x ring)
  show ?case
  proof (cases x)
    case None
    then show ?thesis by simp
  next
    case (Some u)
    with Cons show ?thesis by (auto simp add: compareRing_Some simp del: compareRing.simps)
  qed
qed

lemma isHealthy_true_iff:
  "isHealthy master ring = Inr True \<longleftrightarrow>
     length (Nodes master) = length ring \<and>
     (\<forall>x\<in>set ring. \<exists>v. x = Some v \<and> Algo v = Algo master \<and> Nodes v = Nodes master)"
  by (simp add: isHealthy_def compareRing_true_iff)

lemma compareRing_mismatch_reached:
  "None \<notin> set pre \<Longrightarrow> Nodes v \<noteq> Nodes master \<Longrightarrow>
   compareRing master (pre @ Some v # post) = Inr False"
proof (induction pre)
  case Nil
  then show ?case by (simp add: compareRing_Some del: compareRing.simps)
next
  case (Cons x pre)
  then obtain u where "x = Some u" by (cases x) auto
  with Cons show ?case by (simp add: compareRing_Some del: compareRing.simps)
qed

text \<open>A present peer with the reference's algorithm and node count whose node list
  differs from the reference's at some index: \<^verbatim>\<open>isHealthy\<close> never answers true, and
  it returns false whenever the snapshots examined before that peer are present.\<close>

lemma order_mismatch_unhealthy:
  assumes "i < length ring" and "ring ! i = Some v"
    and "Algo v = Algo master" and "length (Nodes v) = length (Nodes master)"
    and "j < length (Nodes v)" and "Nodes v ! j \<noteq> Nodes master ! j"
  shows "isHealthy master ring \<noteq> Inr True
     \<and> (None \<notin> set (take i ring) \<longrightarrow> isHealthy master ring = Inr False)"
proof -
  from assms(6) have diff: "Nodes v \<noteq> Nodes master" by auto
  from assms(1,2) have split: "ring = take i ring @ Some v # drop (Suc i) ring"
    by (metis id_take_nth_drop)
  from assms(1,2) have "Some v \<in> set ring" by (metis nth_mem)
  with diff have "compareRing master ring \<noteq> Inr True"
    by (auto simp: compareRing_true_iff)
  then have nt: "isHealthy master ring \<noteq> Inr True"
    by (simp add: isHealthy_def)
  have "compareRing master ring = Inr False" if "None \<notin> set (take i ring)"
    using compareRing_mismatch_reached [OF that diff, of "drop (Suc i) ring"] split by simp
  then have "None \<notin> set (take i ring) \<longrightarrow> isHealthy master ring = Inr False"
    by (simp add: isHealthy_def)
  with nt show ?thesis by blast
qed

lemma order_mismatch_unhealthy_example:
  "isHealthy \<lparr>Algo = ''carbon'', Replicas = 1, Nodes = [''a:0'', ''b:0'']\<rparr>
     [Some \<lparr>Algo = ''carbon'', Replicas = 1, Nodes = [''a:0'', ''b:0'']\<rparr>,
      Some \<lparr>Algo = ''carbon'', Replicas = 1, Nodes = [''b:0'', ''a:0'']\<rparr>] = Inr False"
  using order_mismatch_unhealthy [of 1
      "[Some \<lparr>Algo = ''carbon'', Replicas = 1, Nodes = [''a:0'', ''b:0'']\<rparr>,
        Some \<lparr>Algo = ''carbon'', Replicas = 1, Nodes = [''b:0'', ''a:0'']\<rparr>]"
      "\<lparr>Algo = ''carbon'', Replicas = 1, Nodes = [''b:0'', ''a:0'']\<rparr>"
      "\<lparr>Algo = ''carbon'', Replicas = 1, Nodes = [''a:0'', ''b:0'']\<rparr>" 0]
  by simp

lemma compareRing_replicas:
  "list_all2 (rel_option (\<lambda>v v'. Algo v = Algo v' \<and> Nodes v = Nodes v')) ring ring' \<Longrightarrow>
   Algo master = Algo master' \<Longrightarrow> Nodes master = Nodes master' \<Longrightarrow>
   compareRing master ring = compareRing master' ring'"
proof (induction ring ring' rule: list_all2_induct)
  case Nil
  then show ?case by simp
next
  case (Cons x xs y ys)
  show ?case
  proof (cases x)
    case None
    with Cons show ?thesis by (cases y) auto
  next
    case (Some u)
    with Cons obtain u' where "y = Some u'" "Algo u = Algo u'" "Nodes u = Nodes u'"
      by (cases y) auto
    with Some Cons show ?thesis by (simp add: compareRing_Some del: compareRing.simps)
  qed
qed

lemma erase_replicas_all2:
  "map (map_option (\<lambda>v. v\<lparr>Replicas := 0\<rparr>)) ring
     = map (map_option (\<lambda>v. v\<lparr>Replicas := 0\<rparr>)) ring' \<Longrightarrow>
   list_all2 (rel_option (\<lambda>v v'. Algo v = Algo v' \<and> Nodes v = Nodes v')) ring ring'"
proof (induction ring arbitrary: ring')
  case Nil
  then show ?case by simp
next
  case (Cons x xs)
  then obtain y ys where r: "ring' = y # ys" by (cases ring') auto
  with Cons.prems
  have hd: "map_option (\<lambda>v. v\<lparr>Replicas := 0\<rparr>) x = map_option (\<lambda>v. v\<lparr>Replicas := 0\<rparr>) y"
    and tl: "map (map_option (\<lambda>v. v\<lparr>Replicas := 0\<rparr>)) xs
             = map (map_option (\<lambda>v. v\<lparr>Replicas := 0\<rparr>)) ys"
    by simp_all
  have "rel_option (\<lambda>v v'. Algo v = Algo v' \<and> Nodes v = Nodes v') x y"
  proof (cases x)
    case None
    with hd show ?thesis by (cases y) auto
  next
    case (Some u)
    with hd obtain u' where y: "y = Some u'" and e: "u\<lparr>Replicas := 0\<rparr> = u'\<lparr>Replicas := 0\<rparr>"
      by (cases y) auto
    from e have "Algo (u\<lparr>Replicas := 0\<rparr>) = Algo (u'\<lparr>Replicas := 0\<rparr>)"
      "Nodes (u\<lparr>Replicas := 0\<rparr>) = Nodes (u'\<lparr>Replicas := 0\<rparr>)" by simp_all
    with Some y show ?thesis by simp
  qed
  with Cons.IH [OF tl] r show ?case by simp
qed

subsection \<open>Facts about discovery\<close>

lemma ringFor_None_iff:
  "ringFor master = None \<longleftrightarrow> Algo master \<noteq> ''carbon'' \<and> Algo master \<noteq> ''jump_fnv1a''"
  by (simp add: ringFor_def)

text \<open>A call that returns a configuration leaves that configuration in the cache.\<close>

lemma success_is_cached:
  "GetClusterConfig probe hostport g = (Inr c, probes, g') \<Longrightarrow> Cluster g' = Some c"
  by (auto simp: GetClusterConfig_def Let_def split: option.splits sum.splits prod.splits)

text \<open>With an empty cache, a reachable seed, a well-formed \<^verbatim>\<open>HostPort\<close> and an
  algorithm the switch does not know, the call returns the error and leaves the
  freshly allocated configuration in the cache.\<close>

lemma unknown_algorithm_populates_cache:
  assumes "Cluster g = None" and "probe hostport = Inr master"
    and "SplitHostPort (HostPort g) = Inr (server, port)" and "ringFor master = None"
  shows "GetClusterConfig probe hostport g =
     (Inl (Errorf (''Unknown consistent hash algorithm: '' @ Algo master)), [hostport],
      g\<lparr>Cluster := Some \<lparr>Port = port, Servers = [], Hash = None, Healthy = False\<rparr>\<rparr>)"
  using assms by (simp add: GetClusterConfig_def)

section \<open>The claims\<close>

text \<open>
  Claim C1. A seed snapshot whose algorithm is neither \<^verbatim>\<open>carbon\<close> nor
  \<^verbatim>\<open>jump_fnv1a\<close> makes \<^verbatim>\<open>GetClusterConfig\<close> return an error naming the algorithm and
  should leave the cache untouched. The code returns the error, but it has assigned
  \<^verbatim>\<open>Cluster\<close> before the switch: with an empty cache and a seed reporting
  \<^verbatim>\<open>bogus\<close>, the cache holds a configuration with no ring and no server afterwards,
  and the next call returns that configuration as a success, without probing.
\<close>

theorem GetClusterConfig_unknown_algorithm_caches:
  "GetClusterConfig (\<lambda>h. Inr \<lparr>Algo = ''bogus'', Replicas = 1, Nodes = [''a:0'', ''b:0'']\<rparr>)
      ''a:4242'' \<lparr>Cluster = None, HostPort = ''a:4242''\<rparr>
    = (Inl (Errorf ''Unknown consistent hash algorithm: bogus''), [''a:4242''],
       \<lparr>Cluster = Some \<lparr>Port = ''4242'', Servers = [], Hash = None, Healthy = False\<rparr>,
        HostPort = ''a:4242''\<rparr>)
   \<and> GetClusterConfig (\<lambda>h. Inr \<lparr>Algo = ''carbon'', Replicas = 1, Nodes = [''a:0'', ''b:0'']\<rparr>)
      ''a:4242''
      \<lparr>Cluster = Some \<lparr>Port = ''4242'', Servers = [], Hash = None, Healthy = False\<rparr>,
        HostPort = ''a:4242''\<rparr>
    = (Inr \<lparr>Port = ''4242'', Servers = [], Hash = None, Healthy = False\<rparr>, [],
       \<lparr>Cluster = Some \<lparr>Port = ''4242'', Servers = [], Hash = None, Healthy = False\<rparr>,
        HostPort = ''a:4242''\<rparr>)"
  by (simp add: run_defs)

text \<open>
  Claim C2. A peer whose probe fails should make the check answer unhealthy without
  a crash. The code appends the nil pointer of the failed probe to \<^verbatim>\<open>members\<close>, and
  \<^verbatim>\<open>isHealthy\<close> reads \<^verbatim>\<open>v.Algo\<close> of it: when the count check passes (the seed is
  addressed by a name that is not in its node list, here an IP address), the call
  panics with a nil dereference instead of returning a verdict.
\<close>

theorem GetClusterConfig_failed_peer_panics:
  "isHealthy \<lparr>Algo = ''carbon'', Replicas = 1, Nodes = [''a:0'', ''b:0'']\<rparr>
      [Some \<lparr>Algo = ''carbon'', Replicas = 1, Nodes = [''a:0'', ''b:0'']\<rparr>, None]
    = Inl NilDereference
   \<and> GetClusterConfig
      (\<lambda>h. if h = ''b:4242'' then Inl ''connection refused''
            else Inr \<lparr>Algo = ''carbon'', Replicas = 1, Nodes = [''a:0'', ''b:0'']\<rparr>)
      ''10.0.0.1:4242'' \<lparr>Cluster = None, HostPort = ''10.0.0.1:4242''\<rparr>
    = (Inl (Panic NilDereference), [''10.0.0.1:4242'', ''a:4242'', ''b:4242''],
       \<lparr>Cluster = Some \<lparr>Port = ''4242'', Servers = [''a'', ''b''],
          Hash = Some (CarbonHashRing [Node ''a'' ''0'', Node ''b'' ''0'']), Healthy = False\<rparr>,
        HostPort = ''10.0.0.1:4242''\<rparr>)"
  by (simp add: run_defs)

text \<open>
  Claim C3. A seed and its peers that all report \<^verbatim>\<open>carbon\<close> with the nodes
  \<^verbatim>\<open>a:0\<close>, \<^verbatim>\<open>b:0\<close>, \<^verbatim>\<open>c:0\<close> should be published as healthy with the servers
  \<^verbatim>\<open>a\<close>, \<^verbatim>\<open>b\<close>, \<^verbatim>\<open>c\<close>. The servers are as claimed, but with the seed \<^verbatim>\<open>a\<close>
  two peers are probed and the leading check of \<^verbatim>\<open>isHealthy\<close> compares the three
  nodes with the two peer snapshots: the published verdict is unhealthy, although
  every peer passes the algorithm, node-count and node-order checks.
\<close>

theorem GetClusterConfig_identical_peers_unhealthy:
  "isHealthy \<lparr>Algo = ''carbon'', Replicas = 1, Nodes = [''a:0'', ''b:0'', ''c:0'']\<rparr>
      [Some \<lparr>Algo = ''carbon'', Replicas = 1, Nodes = [''a:0'', ''b:0'', ''c:0'']\<rparr>,
       Some \<lparr>Algo = ''carbon'', Replicas = 1, Nodes = [''a:0'', ''b:0'', ''c:0'']\<rparr>]
    = Inr False
   \<and> GetClusterConfig
      (\<lambda>h. Inr \<lparr>Algo = ''carbon'', Replicas = 1, Nodes = [''a:0'', ''b:0'', ''c:0'']\<rparr>)
      ''a:4242'' \<lparr>Cluster = None, HostPort = ''a:4242''\<rparr>
    = (Inr \<lparr>Port = ''4242'', Servers = [''a'', ''b'', ''c''],
          Hash = Some (CarbonHashRing [Node ''a'' ''0'', Node ''b'' ''0'', Node ''c'' ''0'']),
          Healthy = False\<rparr>,
       [''a:4242'', ''b:4242'', ''c:4242''],
       \<lparr>Cluster = Some \<lparr>Port = ''4242'', Servers = [''a'', ''b'', ''c''],
          Hash = Some (CarbonHashRing [Node ''a'' ''0'', Node ''b'' ''0'', Node ''c'' ''0'']),
          Healthy = False\<rparr>,
        HostPort = ''a:4242''\<rparr>)"
  by (simp add: run_defs)

text \<open>
  Claim C4. The server and port used for the peer addresses and for recognising the
  seed should be parsed from the argument of the call. The code parses the
  package-level \<^verbatim>\<open>HostPort\<close> instead: called with \<^verbatim>\<open>a:4242\<close> while \<^verbatim>\<open>HostPort\<close>
  is \<^verbatim>\<open>other:9999\<close>, it probes the seed again as a peer, probes every peer on port
  \<^verbatim>\<open>9999\<close> and publishes that port; and with an empty \<^verbatim>\<open>HostPort\<close> the well-formed
  argument \<^verbatim>\<open>a:4242\<close> is answered with an address error.
\<close>

theorem GetClusterConfig_parses_global_HostPort:
  "GetClusterConfig (\<lambda>h. Inr \<lparr>Algo = ''carbon'', Replicas = 1, Nodes = [''a:0'', ''b:0'']\<rparr>)
      ''a:4242'' \<lparr>Cluster = None, HostPort = ''other:9999''\<rparr>
    = (Inr \<lparr>Port = ''9999'', Servers = [''a'', ''b''],
          Hash = Some (CarbonHashRing [Node ''a'' ''0'', Node ''b'' ''0'']), Healthy = True\<rparr>,
       [''a:4242'', ''a:9999'', ''b:9999''],
       \<lparr>Cluster = Some \<lparr>Port = ''9999'', Servers = [''a'', ''b''],
          Hash = Some (CarbonHashRing [Node ''a'' ''0'', Node ''b'' ''0'']), Healthy = True\<rparr>,
        HostPort = ''other:9999''\<rparr>)
   \<and> GetClusterConfig (\<lambda>h. Inr \<lparr>Algo = ''carbon'', Replicas = 1, Nodes = [''a:0'', ''b:0'']\<rparr>)
      ''a:4242'' \<lparr>Cluster = None, HostPort = ''''\<rparr>
    = (Inl (AddrError ''missing port in address'' ''''), [''a:4242''],
       \<lparr>Cluster = None, HostPort = ''''\<rparr>)"
  by (simp add: run_defs)

text \<open>
  Claim C5. When the seed probe fails, \<^verbatim>\<open>GetClusterConfig\<close> returns the probe's
  error, has probed the seed only, and leaves the package-level variables as they
  were, the cache still empty; whatever the next call is given, it probes its seed
  again, so it runs discovery as a first call would.
\<close>

theorem GetClusterConfig_seed_probe_fails:
  assumes "Cluster g = None" and "probe hostport = Inl err"
  shows "GetClusterConfig probe hostport g = (Inl (ProbeFailed err), [hostport], g)
     \<and> (\<forall>probe' hostport'. \<exists>rest.
          fst (snd (GetClusterConfig probe' hostport'
                     (snd (snd (GetClusterConfig probe hostport g)))))
            = hostport' # rest)"
proof -
  have first: "GetClusterConfig probe hostport g = (Inl (ProbeFailed err), [hostport], g)"
    using assms by (simp add: GetClusterConfig_def)
  have "\<exists>rest. fst (snd (GetClusterConfig probe' hostport' g)) = hostport' # rest"
    for probe' hostport'
    using assms(1)
    by (auto simp: GetClusterConfig_def Let_def split: option.splits sum.splits prod.splits)
  with first show ?thesis by simp
qed

theorem GetClusterConfig_seed_probe_fails_witness:
  "GetClusterConfig (\<lambda>h. Inl ''connection refused'') ''a:4242''
      \<lparr>Cluster = None, HostPort = ''a:4242''\<rparr>
    = (Inl (ProbeFailed ''connection refused''), [''a:4242''],
       \<lparr>Cluster = None, HostPort = ''a:4242''\<rparr>)
   \<and> fst (GetClusterConfig
        (\<lambda>h. Inr \<lparr>Algo = ''carbon'', Replicas = 1, Nodes = [''a:0'', ''b:0'']\<rparr>) ''a:4242''
        (snd (snd (GetClusterConfig (\<lambda>h. Inl ''connection refused'') ''a:4242''
          \<lparr>Cluster = None, HostPort = ''a:4242''\<rparr>))))
    = Inr \<lparr>Port = ''4242'', Servers = [''a'', ''b''],
          Hash = Some (CarbonHashRing [Node ''a'' ''0'', Node ''b'' ''0'']), Healthy = False\<rparr>"
  using GetClusterConfig_seed_probe_fails [of "\<lparr>Cluster = None, HostPort = ''a:4242''\<rparr>"
      "\<lambda>h. Inl ''connection refused''" "''a:4242''" "''connection refused''"]
  by (simp add: run_defs)

text \<open>
  Claim C6. After a call that returned a configuration, every later call, whatever
  its prober and argument, returns that same configuration, probes nothing and
  leaves the package-level variables as they are.
\<close>

theorem GetClusterConfig_cached:
  assumes "GetClusterConfig probe hostport g = (Inr c, probes, g')"
  shows "GetClusterConfig probe' hostport' g' = (Inr c, [], g')"
  using success_is_cached [OF assms] by (simp add: GetClusterConfig_def)

theorem GetClusterConfig_cached_witness:
  "GetClusterConfig (\<lambda>h. Inl ''unreachable'') ''z:1''
     (snd (snd (GetClusterConfig
        (\<lambda>h. Inr \<lparr>Algo = ''jump_fnv1a'', Replicas = 3, Nodes = [''a:0'', ''b:0'']\<rparr>) ''a:4242''
        \<lparr>Cluster = None, HostPort = ''a:4242''\<rparr>)))
   = (Inr \<lparr>Port = ''4242'', Servers = [''a'', ''b''],
          Hash = Some (JumpHashRing 3 [Node ''a'' ''0'', Node ''b'' ''0'']), Healthy = False\<rparr>,
      [],
      \<lparr>Cluster = Some \<lparr>Port = ''4242'', Servers = [''a'', ''b''],
          Hash = Some (JumpHashRing 3 [Node ''a'' ''0'', Node ''b'' ''0'']), Healthy = False\<rparr>,
       HostPort = ''a:4242''\<rparr>)"
proof -
  have first: "GetClusterConfig
      (\<lambda>h. Inr \<lparr>Algo = ''jump_fnv1a'', Replicas = 3, Nodes = [''a:0'', ''b:0'']\<rparr>) ''a:4242''
      \<lparr>Cluster = None, HostPort = ''a:4242''\<rparr>
    = (Inr \<lparr>Port = ''4242'', Servers = [''a'', ''b''],
          Hash = Some (JumpHashRing 3 [Node ''a'' ''0'', Node ''b'' ''0'']), Healthy = False\<rparr>,
       [''a:4242'', ''b:4242''],
       \<lparr>Cluster = Some \<lparr>Port = ''4242'', Servers = [''a'', ''b''],
          Hash = Some (JumpHashRing 3 [Node ''a'' ''0'', Node ''b'' ''0'']), Healthy = False\<rparr>,
        HostPort = ''a:4242''\<rparr>)"
    by (simp add: run_defs)
  show ?thesis
    using GetClusterConfig_cached [OF first, of "\<lambda>h. Inl ''unreachable''" "''z:1''"]
    by (simp only: first snd_conv)
qed

text \<open>
  Claim C7. A present peer snapshot with the reference's algorithm and node count
  whose node list differs from the reference's at some index should make
  \<^verbatim>\<open>isHealthy\<close> return false. The lists are compared position by position, and the
  answer is false when the loop reaches that peer; but the loop examines the peers in
  order and reads \<^verbatim>\<open>v.Algo\<close> of each: with the reference nodes \<^verbatim>\<open>a:0\<close>, \<^verbatim>\<open>b:0\<close>, a
  first peer whose probe failed and a second peer reporting \<^verbatim>\<open>b:0\<close>, \<^verbatim>\<open>a:0\<close>, the
  call panics on the nil pointer before the second peer is compared, and no verdict
  is returned.
\<close>

theorem isHealthy_mismatch_after_absent_panics:
  "isHealthy \<lparr>Algo = ''carbon'', Replicas = 1, Nodes = [''a:0'', ''b:0'']\<rparr>
      [None, Some \<lparr>Algo = ''carbon'', Replicas = 1, Nodes = [''b:0'', ''a:0'']\<rparr>]
    = Inl NilDereference
   \<and> isHealthy \<lparr>Algo = ''carbon'', Replicas = 1, Nodes = [''a:0'', ''b:0'']\<rparr>
      [None, Some \<lparr>Algo = ''carbon'', Replicas = 1, Nodes = [''b:0'', ''a:0'']\<rparr>]
    \<noteq> Inr False
   \<and> GetClusterConfig
      (\<lambda>h. if h = ''a:4242'' then Inl ''connection refused''
            else if h = ''b:4242''
            then Inr \<lparr>Algo = ''carbon'', Replicas = 1, Nodes = [''b:0'', ''a:0'']\<rparr>
            else Inr \<lparr>Algo = ''carbon'', Replicas = 1, Nodes = [''a:0'', ''b:0'']\<rparr>)
      ''10.0.0.1:4242'' \<lparr>Cluster = None, HostPort = ''10.0.0.1:4242''\<rparr>
    = (Inl (Panic NilDereference), [''10.0.0.1:4242'', ''a:4242'', ''b:4242''],
       \<lparr>Cluster = Some \<lparr>Port = ''4242'', Servers = [''a'', ''b''],
          Hash = Some (CarbonHashRing [Node ''a'' ''0'', Node ''b'' ''0'']), Healthy = False\<rparr>,
        HostPort = ''10.0.0.1:4242''\<rparr>)"
  by (simp add: run_defs)

text \<open>
  Claim C8. The result of \<^verbatim>\<open>isHealthy\<close> does not depend on any replica count: two
  inputs that become equal once every \<^verbatim>\<open>Replicas\<close> field is overwritten with the
  same value give the same result.
\<close>

theorem isHealthy_ignores_replicas:
  assumes "master\<lparr>Replicas := 0\<rparr> = master'\<lparr>Replicas := 0\<rparr>"
    and "map (map_option (\<lambda>v. v\<lparr>Replicas := 0\<rparr>)) ring
         = map (map_option (\<lambda>v. v\<lparr>Replicas := 0\<rparr>)) ring'"
  shows "isHealthy master ring = isHealthy master' ring'"
proof -
  from assms(1) have "Algo (master\<lparr>Replicas := 0\<rparr>) = Algo (master'\<lparr>Replicas := 0\<rparr>)"
    "Nodes (master\<lparr>Replicas := 0\<rparr>) = Nodes (master'\<lparr>Replicas := 0\<rparr>)" by simp_all
  then have m: "Algo master = Algo master'" "Nodes master = Nodes master'" by simp_all
  from assms(2) have "length ring = length ring'"
    by (metis length_map)
  moreover have "compareRing master ring = compareRing master' ring'"
    using erase_replicas_all2 [OF assms(2)] m by (rule compareRing_replicas)
  ultimately show ?thesis using m by (simp add: isHealthy_def)
qed

theorem isHealthy_ignores_replicas_witness:
  "isHealthy \<lparr>Algo = ''jump_fnv1a'', Replicas = 1, Nodes = [''a'']\<rparr>
     [Some \<lparr>Algo = ''jump_fnv1a'', Replicas = 2, Nodes = [''a'']\<rparr>]
   = isHealthy \<lparr>Algo = ''jump_fnv1a'', Replicas = 100, Nodes = [''a'']\<rparr>
     [Some \<lparr>Algo = ''jump_fnv1a'', Replicas = 7, Nodes = [''a'']\<rparr>]
   \<and> isHealthy \<lparr>Algo = ''jump_fnv1a'', Replicas = 1, Nodes = [''a'']\<rparr>
     [Some \<lparr>Algo = ''jump_fnv1a'', Replicas = 2, Nodes = [''a'']\<rparr>] = Inr True"
  using isHealthy_ignores_replicas [of
      "\<lparr>Algo = ''jump_fnv1a'', Replicas = 1, Nodes = [''a'']\<rparr>"
      "\<lparr>Algo = ''jump_fnv1a'', Replicas = 100, Nodes = [''a'']\<rparr>"
      "[Some \<lparr>Algo = ''jump_fnv1a'', Replicas = 2, Nodes = [''a'']\<rparr>]"
      "[Some \<lparr>Algo = ''jump_fnv1a'', Replicas = 7, Nodes = [''a'']\<rparr>]"]
  by (simp add: isHealthy_def)

text \<open>
  Claim C9, as the code has it. The token is split at every colon and the node is
  built from the first two fields: a token with no colon gives the token and the
  empty instance; a token \<^verbatim>\<open>name:rest\<close> gives \<^verbatim>\<open>name\<close> and the part of \<^verbatim>\<open>rest\<close>
  before its first colon, which is all of \<^verbatim>\<open>rest\<close> when \<^verbatim>\<open>rest\<close> has no colon. So
  \<^verbatim>\<open>host1\<close> gives the node of \<^verbatim>\<open>host1\<close> with the empty instance and \<^verbatim>\<open>host1:5\<close>
  the node of \<^verbatim>\<open>host1\<close> with instance \<^verbatim>\<open>5\<close>.
\<close>

theorem parseNode_first_two_fields:
  "(CHR '':'' \<notin> set t \<longrightarrow> parseNode t = Node t '''')
   \<and> (CHR '':'' \<notin> set name \<longrightarrow>
        parseNode (name @ '':'' @ rest) = Node name (takeWhile (\<lambda>c. c \<noteq> CHR '':'') rest))
   \<and> (CHR '':'' \<notin> set name \<and> CHR '':'' \<notin> set rest \<longrightarrow>
        parseNode (name @ '':'' @ rest) = Node name rest)
   \<and> parseNode ''host1'' = Node ''host1'' ''''
   \<and> parseNode ''host1:5'' = Node ''host1'' ''5''"
proof -
  let ?P = "\<lambda>c. c \<noteq> CHR '':''"
  have none: "parseNode t = Node t ''''" if "CHR '':'' \<notin> set t"
    using that by (simp add: parseNode_general [of t] takeWhile_no_sep dropWhile_no_sep)
  have one: "parseNode (name @ '':'' @ rest) = Node name (takeWhile ?P rest)"
    if "CHR '':'' \<notin> set name"
    using that parseNode_general [of "name @ '':'' @ rest"]
    by (simp add: takeWhile_sep_append dropWhile_sep_append)
  have all: "parseNode (name @ '':'' @ rest) = Node name rest"
    if "CHR '':'' \<notin> set name \<and> CHR '':'' \<notin> set rest"
    using that one by (simp add: takeWhile_no_sep)
  have "parseNode ''host1'' = Node ''host1'' ''''"
    by (simp add: parseNode_def nodeFields_def)
  moreover have "parseNode ''host1:5'' = Node ''host1'' ''5''"
    by (simp add: parseNode_def nodeFields_def)
  ultimately show ?thesis using none one all by blast
qed

theorem parseNode_first_two_fields_witness:
  "parseNode ''host1'' = Node ''host1'' ''''
   \<and> parseNode ''host1:5:x'' = Node ''host1'' ''5''
   \<and> parseNode ''host1:5'' = Node ''host1'' ''5''"
  using parseNode_first_two_fields [of "''host1''" "''host1''" "''5:x''"]
    parseNode_first_two_fields [of "''host1''" "''host1''" "''5''"]
  by simp

text \<open>The claim as the spec words it takes everything after the first colon as the
  instance; for the token \<^verbatim>\<open>h:1:2\<close> the code's instance is \<^verbatim>\<open>1\<close>, not \<^verbatim>\<open>1:2\<close>.\<close>

theorem parseNode_not_all_after_first_colon:
  "parseNode ''h:1:2'' = Node ''h'' ''1'' \<and> parseNode ''h:1:2'' \<noteq> Node ''h'' ''1:2''"
  by (simp add: parseNode_def nodeFields_def)

text \<open>
  Claim C10. With no peer snapshot at all, \<^verbatim>\<open>isHealthy\<close> returns true exactly when
  the reference has no node: the leading check compares the reference's node count
  with the number of peer snapshots, so a reference with one node and no peer is
  unhealthy.
\<close>

theorem isHealthy_no_peers:
  "isHealthy master [] = Inr (Nodes master = [])
   \<and> (length (Nodes master) = 1 \<longrightarrow> isHealthy master [] = Inr False)"
  by (auto simp: isHealthy_def)

theorem isHealthy_no_peers_witness:
  "isHealthy \<lparr>Algo = ''carbon'', Replicas = 1, Nodes = [''a:0'']\<rparr> [] = Inr False
   \<and> isHealthy \<lparr>Algo = ''carbon'', Replicas = 1, Nodes = []\<rparr> [] = Inr True"
  using isHealthy_no_peers [of "\<lparr>Algo = ''carbon'', Replicas = 1, Nodes = [''a:0'']\<rparr>"]
    isHealthy_no_peers [of "\<lparr>Algo = ''carbon'', Replicas = 1, Nodes = []\<rparr>"]
  by simp

end
